theory Spec2Isabelle
  imports Main "HOL-Library.Word"
begin

section \<open>The synchronised playback client (sync-client.c)\<close>

text \<open>
  A shallow embedding of \<^verbatim>\<open>src/gst-libs/gst/sync-server/sync-client.c\<close>: the client
  object, the start/refresh procedure \<^verbatim>\<open>update_pipeline\<close>, the bus handler
  \<^verbatim>\<open>bus_cb\<close> and the snapshot handler \<^verbatim>\<open>update_sync_info\<close>.

  The media pipeline, the network clock and the bus are GStreamer objects outside the
  file. Every call the client makes on them is recorded, in program order, in a list of
  \<open>action\<close>s that each handler returns next to the new client state; every answer
  they give back (a state-change return, the clock's time, a query result) is an input
  of the handler, collected in the record \<open>replies\<close>.
\<close>

subsection \<open>Data\<close>

text \<open>\<^verbatim>\<open>GstClockTime\<close> is an unsigned 64-bit count of nanoseconds.\<close>

type_synonym clocktime = "64 word"

definition GST_CLOCK_TIME_NONE :: clocktime where
  "GST_CLOCK_TIME_NONE = - 1"

definition GST_MSECOND :: clocktime where
  "GST_MSECOND = 1000000"

text \<open>Line 89: \<^verbatim>\<open>#define DEFAULT_SEEK_TOLERANCE (200 * GST_MSECOND)\<close>.\<close>

definition DEFAULT_SEEK_TOLERANCE :: clocktime where
  "DEFAULT_SEEK_TOLERANCE = 200 * GST_MSECOND"

text \<open>Lines 44-48: the anonymous enum of seek states.\<close>

datatype seek_phase = NEED_SEEK | IN_SEEK | DONE_SEEK

datatype gst_state =
  GST_STATE_VOID_PENDING | GST_STATE_NULL | GST_STATE_READY | GST_STATE_PAUSED | GST_STATE_PLAYING

datatype state_change_return =
  GST_STATE_CHANGE_FAILURE | GST_STATE_CHANGE_SUCCESS | GST_STATE_CHANGE_ASYNC
  | GST_STATE_CHANGE_NO_PREROLL

text \<open>
  \<^verbatim>\<open>GstSyncServerInfo\<close> is declared in \<^verbatim>\<open>sync-server-info.h\<close>; the client reads it
  through the getters only, one field per getter. The base time and its offset are both
  64-bit values: whatever the signedness of the offset's getter, C's usual arithmetic
  conversions make the sums and differences with a \<^verbatim>\<open>GstClockTime\<close> unsigned 64-bit
  ones, which is what the word operations compute.
\<close>

record sync_info =
  uri :: string
  base_time :: clocktime
  base_time_offset :: clocktime
  latency :: clocktime
  stopped :: bool
  paused :: bool
  clock_address :: string
  clock_port :: "32 word"

text \<open>
  Lines 50-68: \<^verbatim>\<open>struct _GstSyncClient\<close>, without the control connection. \<open>info\<close> is
  \<open>None\<close> for the NULL pointer; \<open>clock\<close> holds the address and port the network clock
  was created with, \<open>None\<close> before it is created.
\<close>

record client =
  info :: "sync_info option"
  clock :: "(string \<times> 32 word) option"
  synchronised :: bool
  seek_state :: seek_phase
  seek_offset :: clocktime

text \<open>The calls made on the pipeline, the clock and the bus, and the warnings logged.\<close>

datatype action =
    SetUri string
  | SetLatency clocktime
  | SetState gst_state
  | SetStartTime clocktime
  | SetBaseTime clocktime
  | SeekSimple clocktime
  | QueryPosition
  | ClockGetTime
  | WaitForSync clocktime
  | NetClientClockNew string "32 word"
  | UseClock
  | ClockSetBus
  | BusAddWatch
  | EnableSyncMessageEmission
  | ConnectAsyncDone
  | Warning string

text \<open>
  The answer of \<^verbatim>\<open>gst_element_query_position\<close>, which lines 282-283 give the address
  of \<^verbatim>\<open>self->seek_offset\<close> as its output location. \<open>PositionOk p\<close>: the call returned
  TRUE and stored the position \<open>p\<close> there. \<open>PositionFailed w\<close>: the call returned FALSE;
  \<open>w\<close> is what it left in the output location, \<open>None\<close> when it stored nothing and
  \<open>Some v\<close> when it stored \<open>v\<close> before failing (as an implementation does that
  presets the location to \<^verbatim>\<open>GST_CLOCK_TIME_NONE\<close>). The client keeps no copy of the
  field, so after a failed call the field holds what the call left.
\<close>

datatype position_reply = PositionOk clocktime | PositionFailed "clocktime option"

text \<open>
  What the outside answers during one handler run. \<open>is_live_uninit\<close> is the
  indeterminate content of the local \<^verbatim>\<open>is_live\<close> of \<^verbatim>\<open>update_pipeline\<close>, which the
  failure branch of its switch leaves unassigned.
\<close>

record replies =
  set_state_null_ret :: state_change_return
  set_state_paused_ret :: state_change_return
  is_live_uninit :: bool
  wait_for_sync_ret :: bool
  clock_get_time_ret :: clocktime
  seek_simple_ret :: bool
  query_position_ret :: position_reply

datatype msg_src = SrcPipeline | SrcOther

text \<open>
  The bus messages by \<^verbatim>\<open>GST_MESSAGE_TYPE\<close>. An element message carries the name of its
  structure and the boolean field \<^verbatim>\<open>synchronised\<close> when the structure has one; a
  state-changed message its source and the old and new state.
\<close>

datatype message =
    MsgElement string "bool option"
  | MsgStateChanged msg_src gst_state gst_state
  | MsgAsyncDone
  | MsgEos msg_src
  | MsgOther

subsection \<open>Operations\<close>

text \<open>Lines 534-551: \<^verbatim>\<open>gst_sync_client_init\<close>.\<close>

definition gst_sync_client_init :: client where
  "gst_sync_client_init =
     \<lparr>info = None, clock = None, synchronised = False, seek_state = NEED_SEEK, seek_offset = 0\<rparr>"

text \<open>
  Lines 125-139: \<^verbatim>\<open>set_base_time\<close>. The result is \<open>None\<close> where the C code would
  dereference a NULL \<^verbatim>\<open>self->info\<close>.
\<close>

definition set_base_time :: "client \<Rightarrow> action list option" where
  "set_base_time s =
     (case info s of
        None \<Rightarrow> None
      | Some i \<Rightarrow>
          Some [SetStartTime GST_CLOCK_TIME_NONE,
                SetBaseTime (base_time i + base_time_offset i + seek_offset s)])"

text \<open>Lines 141-189: \<^verbatim>\<open>update_pipeline\<close>, the start/refresh procedure.\<close>

definition update_pipeline :: "replies \<Rightarrow> client \<Rightarrow> (client \<times> action list) option" where
  "update_pipeline a s =
     (case info s of
        None \<Rightarrow> None
      | Some i \<Rightarrow>
          if stopped i then
            Some (s, [SetUri (uri i), SetLatency (latency i), SetState GST_STATE_NULL] @
                     (if set_state_null_ret a = GST_STATE_CHANGE_FAILURE
                      then [Warning ''Error while stopping pipeline''] else []))
          else
            let r = set_state_paused_ret a;
                warn = (if r = GST_STATE_CHANGE_FAILURE
                        then [Warning ''Could not play uri''] else []);
                is_live = (case r of
                             GST_STATE_CHANGE_FAILURE \<Rightarrow> is_live_uninit a
                           | GST_STATE_CHANGE_NO_PREROLL \<Rightarrow> True
                           | _ \<Rightarrow> False);
                s1 = s\<lparr>seek_offset := 0,
                       seek_state := (if is_live then DONE_SEEK else NEED_SEEK)\<rparr>;
                pre = [SetUri (uri i), SetLatency (latency i), SetState GST_STATE_PAUSED] @ warn
            in if \<not> paused i then
                 (case set_base_time s1 of
                    None \<Rightarrow> None
                  | Some bt \<Rightarrow> Some (s1, pre @ bt @ [SetState GST_STATE_PLAYING]))
               else Some (s1, pre))"

text \<open>
  Lines 203-209 of \<^verbatim>\<open>bus_cb\<close>: \<^verbatim>\<open>gst_structure_get_boolean\<close> stores the field
  \<^verbatim>\<open>synchronised\<close> of the statistics structure into \<^verbatim>\<open>self->synchronised\<close>, and
  stores nothing when the structure has no such field.
\<close>

definition read_synchronised :: "bool option \<Rightarrow> client \<Rightarrow> client" where
  "read_synchronised f s = (case f of None \<Rightarrow> s | Some b \<Rightarrow> s\<lparr>synchronised := b\<rparr>)"

text \<open>
  Lines 211-221 of \<^verbatim>\<open>bus_cb\<close>: the bounded wait for the clock (10 seconds) and, when
  it succeeds, the start of playback.
\<close>

definition sync_wait :: "replies \<Rightarrow> client \<Rightarrow> (client \<times> action list) option" where
  "sync_wait a s =
     (case clock s of
        None \<Rightarrow> None
      | Some c \<Rightarrow>
          if \<not> wait_for_sync_ret a then
            Some (s\<lparr>synchronised := False\<rparr>,
                  [WaitForSync (10 * (1000 * GST_MSECOND)), Warning ''Could not synchronise clock''])
          else
            (case update_pipeline a s of
               None \<Rightarrow> None
             | Some (s1, xs) \<Rightarrow> Some (s1, WaitForSync (10 * (1000 * GST_MSECOND)) # xs)))"

text \<open>
  Lines 191-307: \<^verbatim>\<open>bus_cb\<close>. The C conditions joined by \<^verbatim>\<open>||\<close> are evaluated left to
  right and are written as successive tests. \<open>None\<close> stands for the dereference of a
  NULL \<^verbatim>\<open>self->info\<close> or \<^verbatim>\<open>self->clock\<close>.
\<close>

definition bus_cb :: "replies \<Rightarrow> message \<Rightarrow> client \<Rightarrow> (client \<times> action list) option" where
  "bus_cb a m s =
     (case m of
        MsgElement name f \<Rightarrow>
          if synchronised s then Some (s, [])
          else if name \<noteq> ''gst-netclock-statistics'' then Some (s, [])
          else
            let s1 = read_synchronised f s
            in if \<not> synchronised s1 then Some (s1, []) else sync_wait a s1
      | MsgStateChanged src old new \<Rightarrow>
          if seek_state s \<noteq> NEED_SEEK then Some (s, [])
          else if src \<noteq> SrcPipeline then Some (s, [])
          else if old \<noteq> GST_STATE_PAUSED \<and> new \<noteq> GST_STATE_PLAYING then Some (s, [])
          else
            (case clock s of
               None \<Rightarrow> None
             | Some c \<Rightarrow>
                 let now = clock_get_time_ret a;
                     s1 = s\<lparr>seek_state := IN_SEEK\<rparr>
                 in (case info s1 of
                       None \<Rightarrow> None
                     | Some i \<Rightarrow>
                         let cur_pos = now - base_time i - base_time_offset i
                         in if cur_pos > DEFAULT_SEEK_TOLERANCE then
                              if \<not> seek_simple_ret a then
                                Some (s1\<lparr>seek_state := DONE_SEEK\<rparr>,
                                      [ClockGetTime, SeekSimple cur_pos,
                                       Warning ''Could not perform seek''])
                              else Some (s1, [ClockGetTime, SeekSimple cur_pos])
                            else Some (s1\<lparr>seek_state := DONE_SEEK\<rparr>, [ClockGetTime])))
      | MsgAsyncDone \<Rightarrow>
          if seek_state s \<noteq> IN_SEEK then Some (s, [])
          else
            (case query_position_ret a of
               PositionOk p \<Rightarrow>
                 let s1 = s\<lparr>seek_offset := p\<rparr>
                 in (case set_base_time s1 of
                       None \<Rightarrow> None
                     | Some bt \<Rightarrow> Some (s1\<lparr>seek_state := DONE_SEEK\<rparr>, QueryPosition # bt))
             | PositionFailed w \<Rightarrow>
                 let s1 = (case w of None \<Rightarrow> s | Some v \<Rightarrow> s\<lparr>seek_offset := v\<rparr>)
                 in Some (s1\<lparr>seek_state := DONE_SEEK\<rparr>, [QueryPosition]))
      | MsgEos src \<Rightarrow>
          if src = SrcPipeline then Some (s, [SetState GST_STATE_NULL]) else Some (s, [])
      | MsgOther \<Rightarrow> Some (s, []))"

text \<open>
  Lines 354-355 and 371-372 of \<^verbatim>\<open>update_sync_info\<close>: the complete reset, the pipeline
  set to NULL and then started again.
\<close>

definition reset_pipeline :: "replies \<Rightarrow> client \<Rightarrow> (client \<times> action list) option" where
  "reset_pipeline a s =
     (case update_pipeline a s of
        None \<Rightarrow> None
      | Some (s1, xs) \<Rightarrow> Some (s1, SetState GST_STATE_NULL # xs))"

text \<open>
  Lines 309-381: \<^verbatim>\<open>update_sync_info\<close>. The first branch of the comparison,
  \<^verbatim>\<open>stopped differs || uri differs\<close>, is written as two successive tests.
\<close>

definition update_sync_info :: "replies \<Rightarrow> sync_info \<Rightarrow> client \<Rightarrow> (client \<times> action list) option" where
  "update_sync_info a new s =
     (case info s of
        None \<Rightarrow>
          Some (s\<lparr>info := Some new, clock := Some (clock_address new, clock_port new)\<rparr>,
                [NetClientClockNew (clock_address new) (clock_port new), UseClock, ClockSetBus,
                 BusAddWatch, EnableSyncMessageEmission, ConnectAsyncDone])
      | Some old \<Rightarrow>
          let s1 = s\<lparr>info := Some new\<rparr>
          in if stopped old \<noteq> stopped new then reset_pipeline a s1
             else if uri old \<noteq> uri new then reset_pipeline a s1
             else if paused old \<noteq> paused new then
               (if \<not> paused new then
                  (case set_base_time s1 of
                     None \<Rightarrow> None
                   | Some bt \<Rightarrow> Some (s1, bt @ [SetState GST_STATE_PLAYING]))
                else Some (s1, [SetState GST_STATE_PAUSED]))
             else if base_time old \<noteq> base_time new then reset_pipeline a s1
             else Some (s1, []))"

subsection \<open>Event sequences\<close>

text \<open>
  The client is driven by snapshots from the control connection (\<^verbatim>\<open>sync_info_notify\<close>,
  lines 504-532) and by bus messages. \<^verbatim>\<open>bus_cb\<close> is attached to the bus by the first
  snapshot update only (lines 331-335), so a message that arrives before it reaches no
  handler.
\<close>

datatype event = SyncInfo sync_info | BusMessage message

definition dispatch :: "replies \<Rightarrow> event \<Rightarrow> client \<Rightarrow> (client \<times> action list) option" where
  "dispatch a e s =
     (case e of
        SyncInfo i \<Rightarrow> update_sync_info a i s
      | BusMessage m \<Rightarrow> (case info s of None \<Rightarrow> Some (s, []) | Some i \<Rightarrow> bus_cb a m s))"

fun run :: "(replies \<times> event) list \<Rightarrow> client \<Rightarrow> (client \<times> action list) option" where
  "run [] s = Some (s, [])"
| "run ((a, e) # es) s =
     (case dispatch a e s of
        None \<Rightarrow> None
      | Some (s1, xs) \<Rightarrow>
          (case run es s1 of
             None \<Rightarrow> None
           | Some (s2, ys) \<Rightarrow> Some (s2, xs @ ys)))"

subsection \<open>A concrete client\<close>

text \<open>
  The snapshot of the specification's scenario: locator \<open>A\<close>, base time 1000 ms, no
  offset, neither stopped nor paused; answers of a pipeline that prerolls, a clock that
  synchronises and reads 1300 ms, a seek that lands at 310 ms; and the client as the first
  snapshot update leaves it.
\<close>

definition example_info :: sync_info where
  "example_info =
     \<lparr>uri = ''A'', base_time = 1000 * GST_MSECOND, base_time_offset = 0,
      latency = 300 * GST_MSECOND, stopped = False, paused = False,
      clock_address = ''127.0.0.1'', clock_port = 3695\<rparr>"

definition example_replies :: replies where
  "example_replies =
     \<lparr>set_state_null_ret = GST_STATE_CHANGE_SUCCESS,
      set_state_paused_ret = GST_STATE_CHANGE_ASYNC,
      is_live_uninit = False, wait_for_sync_ret = True,
      clock_get_time_ret = 1300 * GST_MSECOND,
      seek_simple_ret = True, query_position_ret = PositionOk (310 * GST_MSECOND)\<rparr>"

definition example_client :: client where
  "example_client =
     \<lparr>info = Some example_info, clock = Some (''127.0.0.1'', 3695), synchronised = False,
      seek_state = NEED_SEEK, seek_offset = 0\<rparr>"

section \<open>Helper lemmas\<close>

lemmas example_defs =
  example_info_def example_replies_def example_client_def GST_MSECOND_def
  DEFAULT_SEEK_TOLERANCE_def GST_CLOCK_TIME_NONE_def

subsection \<open>What the start/refresh procedure leaves alone\<close>


lemma update_pipeline_frame:
  "update_pipeline a s = Some (s', xs) \<Longrightarrow>
   info s' = info s \<and> clock s' = clock s \<and> synchronised s' = synchronised s"
  by (auto simp add: update_pipeline_def Let_def split: option.splits if_splits)

subsection \<open>Invariants of the event loop\<close>





text \<open>The clock exists exactly when a snapshot is stored.\<close>

lemma bus_cb_frame:
  "bus_cb a m s = Some (s', xs) \<Longrightarrow> info s' = info s \<and> clock s' = clock s"
  by (cases m)
    (auto simp add: bus_cb_def sync_wait_def read_synchronised_def Let_def
      split: if_splits option.splits position_reply.splits dest: update_pipeline_frame)

lemma update_sync_info_clock_inv:
  "update_sync_info a i s = Some (s', xs) \<Longrightarrow>
   (info s = None \<longleftrightarrow> clock s = None) \<Longrightarrow>
   info s' \<noteq> None \<and> clock s' \<noteq> None"
  by (auto simp add: update_sync_info_def reset_pipeline_def Let_def
      split: if_splits option.splits dest: update_pipeline_frame)

lemma dispatch_clock_inv:
  "dispatch a e s = Some (s', xs) \<Longrightarrow>
   (info s = None \<longleftrightarrow> clock s = None) \<Longrightarrow>
   (info s' = None \<longleftrightarrow> clock s' = None)"
  by (cases e)
    (auto simp add: dispatch_def split: option.splits
      dest: bus_cb_frame update_sync_info_clock_inv)


subsection \<open>The position difference when the clock is behind the base time\<close>





subsection \<open>The clock that does not synchronise\<close>

lemma bus_cb_unsynchronised:
  assumes i: "info s = Some i" and c: "clock s = Some c"
    and u: "\<not> synchronised s" and w: "\<not> wait_for_sync_ret a"
  shows "\<exists>s' xs. bus_cb a m s = Some (s', xs) \<and> info s' = Some i \<and> clock s' = Some c \<and>
           \<not> synchronised s' \<and>
           (\<forall>st. SetState st \<in> set xs \<longrightarrow> st = GST_STATE_NULL \<and> m = MsgEos SrcPipeline)"
proof (cases m)
  case (MsgElement name f)
  with i c u w show ?thesis
    by (cases f) (auto simp add: bus_cb_def read_synchronised_def sync_wait_def Let_def)
next
  case (MsgStateChanged src old new)
  with i c u show ?thesis
    by (auto simp add: bus_cb_def Let_def)
next
  case MsgAsyncDone
  with i c u show ?thesis
    by (cases "query_position_ret a")
      (auto simp add: bus_cb_def set_base_time_def Let_def split: option.splits)
next
  case (MsgEos src)
  with i c u show ?thesis by (cases src) (auto simp add: bus_cb_def)
next
  case MsgOther
  with i c u show ?thesis by (simp add: bus_cb_def)
qed

lemma run_unsynchronised:
  assumes "\<forall>(a, e) \<in> set evs. \<not> wait_for_sync_ret a \<and> (\<exists>m. e = BusMessage m)"
    and "info s = Some i" and "clock s = Some c" and "\<not> synchronised s"
  shows "\<exists>s' xs. run evs s = Some (s', xs) \<and> \<not> synchronised s' \<and>
           (\<forall>st. SetState st \<in> set xs \<longrightarrow>
              st = GST_STATE_NULL \<and> (\<exists>a. (a, BusMessage (MsgEos SrcPipeline)) \<in> set evs))"
  using assms
proof (induction evs arbitrary: s)
  case Nil
  then show ?case by simp
next
  case (Cons p evs)
  obtain a e where p: "p = (a, e)" by (cases p)
  from Cons.prems(1) p obtain m where e: "e = BusMessage m" and w: "\<not> wait_for_sync_ret a"
    by auto
  from bus_cb_unsynchronised [OF Cons.prems(2) Cons.prems(3) Cons.prems(4) w, of m]
  obtain s1 ys where b: "bus_cb a m s = Some (s1, ys)" and i1: "info s1 = Some i"
    and c1: "clock s1 = Some c" and u1: "\<not> synchronised s1"
    and y: "\<forall>st. SetState st \<in> set ys \<longrightarrow> st = GST_STATE_NULL \<and> m = MsgEos SrcPipeline"
    by blast
  have rest: "\<forall>(a, e) \<in> set evs. \<not> wait_for_sync_ret a \<and> (\<exists>m. e = BusMessage m)"
    using Cons.prems(1) by simp
  from Cons.IH [OF rest i1 c1 u1]
  obtain s2 zs where r: "run evs s1 = Some (s2, zs)" and u2: "\<not> synchronised s2"
    and z: "\<forall>st. SetState st \<in> set zs \<longrightarrow>
              st = GST_STATE_NULL \<and> (\<exists>a. (a, BusMessage (MsgEos SrcPipeline)) \<in> set evs)"
    by blast
  have d: "dispatch a e s = Some (s1, ys)"
    using b e Cons.prems(2) by (simp add: dispatch_def)
  have "run (p # evs) s = Some (s2, ys @ zs)"
    using d r p by simp
  moreover have "\<forall>st. SetState st \<in> set (ys @ zs) \<longrightarrow>
              st = GST_STATE_NULL \<and> (\<exists>a. (a, BusMessage (MsgEos SrcPipeline)) \<in> set (p # evs))"
    using y z p e by auto
  ultimately show ?case using u2 by blast
qed

subsection \<open>The synchronised flag across handler runs\<close>

lemma bus_cb_synchronised:
  "bus_cb a m s = Some (s', xs) \<Longrightarrow> synchronised s \<Longrightarrow> synchronised s'"
  by (cases m)
    (auto simp add: bus_cb_def Let_def split: if_splits option.splits position_reply.splits)

lemma update_sync_info_synchronised:
  "update_sync_info a i s = Some (s', xs) \<Longrightarrow> synchronised s' = synchronised s"
  by (auto simp add: update_sync_info_def reset_pipeline_def Let_def
      split: if_splits option.splits dest: update_pipeline_frame)

lemma dispatch_synchronised:
  "dispatch a e s = Some (s', xs) \<Longrightarrow> synchronised s \<Longrightarrow> synchronised s'"
  by (cases e)
    (auto simp add: dispatch_def split: option.splits
      dest: bus_cb_synchronised update_sync_info_synchronised)

lemma run_synchronised:
  "run es s = Some (s', xs) \<Longrightarrow> synchronised s \<Longrightarrow> synchronised s'"
proof (induction es arbitrary: s xs)
  case Nil
  then show ?case by simp
next
  case (Cons p es)
  obtain a e where p: "p = (a, e)" by (cases p)
  from Cons.prems(1) p obtain s1 ys zs where
    d: "dispatch a e s = Some (s1, ys)" and r: "run es s1 = Some (s', zs)"
    by (auto split: option.splits)
  show ?case by (rule Cons.IH [OF r dispatch_synchronised [OF d Cons.prems(2)]])
qed

lemma sync_wait_synchronised:
  "sync_wait a t = Some (t', ys) \<Longrightarrow> synchronised t' = (synchronised t \<and> wait_for_sync_ret a)"
  by (auto simp add: sync_wait_def split: option.splits if_splits dest: update_pipeline_frame)

subsection \<open>The event loop never dereferences NULL\<close>

text \<open>
  From the initial client every sequence of events is handled to the end: no handler
  reaches a NULL snapshot or clock.
\<close>

lemma update_pipeline_Some:
  "info s = Some i \<Longrightarrow> \<exists>s' xs. update_pipeline a s = Some (s', xs)"
  by (auto simp add: update_pipeline_def set_base_time_def Let_def)

lemma bus_cb_Some:
  assumes i: "info s = Some i" and c: "clock s = Some c"
  shows "\<exists>s' xs. bus_cb a m s = Some (s', xs)"
proof (cases m)
  case (MsgElement name f)
  have ri: "info (read_synchronised f s) = Some i"
    using i by (cases f) (simp_all add: read_synchronised_def)
  have rc: "clock (read_synchronised f s) = Some c"
    using c by (cases f) (simp_all add: read_synchronised_def)
  from update_pipeline_Some [OF ri, of a]
  obtain s' xs where up: "update_pipeline a (read_synchronised f s) = Some (s', xs)"
    by blast
  show ?thesis
    using MsgElement rc up by (simp add: bus_cb_def sync_wait_def Let_def)
next
  case (MsgStateChanged src old new)
  with i c show ?thesis by (auto simp add: bus_cb_def Let_def)
next
  case MsgAsyncDone
  with i c show ?thesis
    by (cases "query_position_ret a")
      (auto simp add: bus_cb_def set_base_time_def Let_def split: option.splits)
next
  case (MsgEos src)
  then show ?thesis by (auto simp add: bus_cb_def)
next
  case MsgOther
  then show ?thesis by (simp add: bus_cb_def)
qed

lemma update_sync_info_Some:
  "\<exists>s' xs. update_sync_info a i s = Some (s', xs)"
proof (cases "info s")
  case None
  then show ?thesis by (simp add: update_sync_info_def)
next
  case (Some old)
  from update_pipeline_Some [of "s\<lparr>info := Some i\<rparr>" i a]
  obtain s' xs where "update_pipeline a (s\<lparr>info := Some i\<rparr>) = Some (s', xs)" by auto
  with Some show ?thesis
    by (auto simp add: update_sync_info_def reset_pipeline_def set_base_time_def Let_def)
qed

lemma dispatch_Some:
  assumes "info s = None \<longleftrightarrow> clock s = None"
  shows "\<exists>s' xs. dispatch a e s = Some (s', xs)"
proof (cases e)
  case (SyncInfo i)
  with update_sync_info_Some [of a i s] show ?thesis by (simp add: dispatch_def)
next
  case (BusMessage m)
  show ?thesis
  proof (cases "info s")
    case None
    with BusMessage show ?thesis by (simp add: dispatch_def)
  next
    case (Some i)
    with assms obtain c where "clock s = Some c" by auto
    from bus_cb_Some [OF Some this, of a m] BusMessage Some show ?thesis
      by (simp add: dispatch_def)
  qed
qed

lemma run_Some:
  "(info s = None \<longleftrightarrow> clock s = None) \<Longrightarrow> \<exists>s' xs. run es s = Some (s', xs)"
proof (induction es arbitrary: s)
  case Nil
  then show ?case by simp
next
  case (Cons p es)
  obtain a e where p: "p = (a, e)" by (cases p)
  from dispatch_Some [OF Cons.prems, of a e]
  obtain s1 ys where d: "dispatch a e s = Some (s1, ys)" by blast
  from Cons.IH [OF dispatch_clock_inv [OF d Cons.prems]]
  obtain s2 zs where "run es s1 = Some (s2, zs)" by blast
  with d p show ?case by simp
qed

lemma run_init_Some:
  "\<exists>s xs. run es gst_sync_client_init = Some (s, xs)"
  by (rule run_Some) (simp add: gst_sync_client_init_def)

section \<open>The start of playback\<close>

text \<open>
  Claim C1. A state-changed message handled in \<open>NEED_SEEK\<close> should start the seek
  decision only for the pipeline's step from paused to playing. The test at line 236
  skips a message only when its old state is not paused \<^emph>\<open>and\<close> its new state is not
  playing, so the pipeline's step from paused down to ready passes it: the handler reads
  the clock, moves to \<open>IN_SEEK\<close> and, with the clock 300 ms past the base time, issues a
  seek.
\<close>

theorem paused_to_ready_triggers_seek:
  "bus_cb example_replies (MsgStateChanged SrcPipeline GST_STATE_PAUSED GST_STATE_READY)
       example_client =
     Some (example_client\<lparr>seek_state := IN_SEEK\<rparr>,
           [ClockGetTime, SeekSimple (300 * GST_MSECOND)])"
  by (simp add: bus_cb_def example_defs)

section \<open>The corrective seek\<close>






section \<open>The completed seek\<close>

text \<open>
  Claim C5, as stated, fails in its last part: the handler hands the field
  \<^verbatim>\<open>self->seek_offset\<close> itself to the position query and keeps no copy, so a query that
  fails after storing \<^verbatim>\<open>GST_CLOCK_TIME_NONE\<close> in its output location leaves the seek
  offset at that value, not at the prior 0, and the next application of the base time is
  one nanosecond early.
\<close>

theorem failed_query_overwrites_offset_counterexample:
  "bus_cb (example_replies\<lparr>query_position_ret := PositionFailed (Some GST_CLOCK_TIME_NONE)\<rparr>)
       MsgAsyncDone (example_client\<lparr>seek_state := IN_SEEK\<rparr>) =
     Some (example_client\<lparr>seek_state := DONE_SEEK, seek_offset := GST_CLOCK_TIME_NONE\<rparr>,
           [QueryPosition]) \<and>
   seek_offset (example_client\<lparr>seek_state := IN_SEEK\<rparr>) = 0 \<and>
   GST_CLOCK_TIME_NONE \<noteq> (0 :: clocktime) \<and>
   set_base_time (example_client\<lparr>seek_state := DONE_SEEK, seek_offset := GST_CLOCK_TIME_NONE\<rparr>) =
     Some [SetStartTime GST_CLOCK_TIME_NONE, SetBaseTime (1000 * GST_MSECOND - 1)]"
  by (simp add: bus_cb_def set_base_time_def example_defs)

text \<open>
  Claim C5, amended. When the seek-completion message is handled in the state \<open>IN_SEEK\<close>,
  the handler queries the position and ends in \<open>DONE_SEEK\<close> whatever the answer. If the
  query succeeds with position \<open>p\<close>, the seek offset becomes \<open>p\<close> and the base time
  \<open>base_time + base_time_offset + p\<close> is applied to the pipeline. If it fails, no base
  time is applied and the seek offset holds what the failed query left in its output
  location: the prior value when the query stored nothing, the stored value otherwise.
\<close>

theorem async_done_folds_position:
  "seek_state s = IN_SEEK \<Longrightarrow> info s = Some i \<Longrightarrow>
   \<exists>s' xs. bus_cb a MsgAsyncDone s = Some (s', xs) \<and> seek_state s' = DONE_SEEK \<and>
     (\<forall>p. query_position_ret a = PositionOk p \<longrightarrow>
        seek_offset s' = p \<and>
        xs = [QueryPosition, SetStartTime GST_CLOCK_TIME_NONE,
              SetBaseTime (base_time i + base_time_offset i + p)]) \<and>
     (\<forall>w. query_position_ret a = PositionFailed w \<longrightarrow>
        xs = [QueryPosition] \<and>
        seek_offset s' = (case w of None \<Rightarrow> seek_offset s | Some v \<Rightarrow> v))"
  by (cases "query_position_ret a")
    (auto simp add: bus_cb_def set_base_time_def Let_def split: option.splits)

text \<open>
  The scenario of the specification: the seek lands at 310 ms and the base time becomes
  1310 ms; with a query that fails and stores nothing the offset stays 0.
\<close>

theorem async_done_folds_position_witness:
  "bus_cb example_replies MsgAsyncDone (example_client\<lparr>seek_state := IN_SEEK\<rparr>) =
     Some (example_client\<lparr>seek_state := DONE_SEEK, seek_offset := 310 * GST_MSECOND\<rparr>,
           [QueryPosition, SetStartTime GST_CLOCK_TIME_NONE, SetBaseTime (1310 * GST_MSECOND)]) \<and>
   bus_cb (example_replies\<lparr>query_position_ret := PositionFailed None\<rparr>) MsgAsyncDone
       (example_client\<lparr>seek_state := IN_SEEK\<rparr>) =
     Some (example_client\<lparr>seek_state := DONE_SEEK\<rparr>, [QueryPosition])"
  using async_done_folds_position
      [of "example_client\<lparr>seek_state := IN_SEEK\<rparr>" example_info example_replies]
    async_done_folds_position
      [of "example_client\<lparr>seek_state := IN_SEEK\<rparr>" example_info
          "example_replies\<lparr>query_position_ret := PositionFailed None\<rparr>"]
  by (simp add: example_defs bus_cb_def set_base_time_def)

section \<open>The start/refresh procedure\<close>

text \<open>
  Claim C10. Run on a snapshot whose stopped flag is set, the start/refresh procedure
  commands the idle state, commands no other state, and returns the client unchanged: the
  seek offset and the seek state keep the values of the previous play cycle. On a
  snapshot that is not stopped it resets the seek offset to zero and the seek state to
  \<open>DONE_SEEK\<close> for a live pipeline and \<open>NEED_SEEK\<close> otherwise.
\<close>

theorem stopped_start_keeps_seek_state:
  "info s = Some i \<Longrightarrow>
   (stopped i \<longrightarrow>
      (\<exists>xs. update_pipeline a s = Some (s, xs) \<and> SetState GST_STATE_NULL \<in> set xs \<and>
            (\<forall>st. SetState st \<in> set xs \<longrightarrow> st = GST_STATE_NULL))) \<and>
   (\<not> stopped i \<longrightarrow>
      (\<exists>s' xs. update_pipeline a s = Some (s', xs) \<and> seek_offset s' = 0 \<and>
          seek_state s' =
            (if set_state_paused_ret a = GST_STATE_CHANGE_NO_PREROLL \<or>
                set_state_paused_ret a = GST_STATE_CHANGE_FAILURE \<and> is_live_uninit a
             then DONE_SEEK else NEED_SEEK)))"
  by (cases "set_state_paused_ret a")
    (auto simp add: update_pipeline_def set_base_time_def Let_def)

text \<open>
  After a play cycle that ended with a seek offset of 310 ms: the stopped snapshot keeps
  it, the snapshot that is not stopped resets it.
\<close>

theorem stopped_start_keeps_seek_state_witness:
  "update_pipeline example_replies
     (example_client\<lparr>info := Some (example_info\<lparr>stopped := True\<rparr>), seek_state := DONE_SEEK,
        seek_offset := 310 * GST_MSECOND\<rparr>) =
   Some (example_client\<lparr>info := Some (example_info\<lparr>stopped := True\<rparr>), seek_state := DONE_SEEK,
        seek_offset := 310 * GST_MSECOND\<rparr>,
        [SetUri ''A'', SetLatency (300 * GST_MSECOND), SetState GST_STATE_NULL]) \<and>
   (\<exists>s' xs. update_pipeline example_replies
        (example_client\<lparr>seek_state := DONE_SEEK, seek_offset := 310 * GST_MSECOND\<rparr>) =
          Some (s', xs) \<and>
      seek_offset s' = 0 \<and> seek_state s' = NEED_SEEK)"
  using stopped_start_keeps_seek_state
      [of "example_client\<lparr>info := Some (example_info\<lparr>stopped := True\<rparr>), seek_state := DONE_SEEK,
             seek_offset := 310 * GST_MSECOND\<rparr>"
          "example_info\<lparr>stopped := True\<rparr>" example_replies]
    stopped_start_keeps_seek_state
      [of "example_client\<lparr>seek_state := DONE_SEEK, seek_offset := 310 * GST_MSECOND\<rparr>"
          example_info example_replies]
  by (simp add: example_defs update_pipeline_def)

text \<open>
  Claim C2. When the pipeline refuses the paused state, the start/refresh procedure should
  report the error and stop there. The failure branch of the switch at lines 162-176 only
  logs and leaves the switch, so the procedure goes on: it resets the seek offset, sets the
  seek state from the unassigned \<^verbatim>\<open>is_live\<close>, applies the base time and commands the
  playing state, whatever the unassigned local happens to hold (\<open>b\<close> below).
\<close>

theorem failed_pause_still_plays:
  "update_pipeline
       (example_replies\<lparr>set_state_paused_ret := GST_STATE_CHANGE_FAILURE, is_live_uninit := b\<rparr>)
       (example_client\<lparr>seek_state := DONE_SEEK, seek_offset := 310 * GST_MSECOND\<rparr>) =
     Some (example_client\<lparr>seek_state := (if b then DONE_SEEK else NEED_SEEK), seek_offset := 0\<rparr>,
           [SetUri ''A'', SetLatency (300 * GST_MSECOND), SetState GST_STATE_PAUSED,
            Warning ''Could not play uri'', SetStartTime GST_CLOCK_TIME_NONE,
            SetBaseTime (1000 * GST_MSECOND), SetState GST_STATE_PLAYING])"
  by (simp add: update_pipeline_def set_base_time_def example_defs)

section \<open>Snapshot updates\<close>




text \<open>
  Claim C8, as stated, fails: the first snapshot update creates the clock and attaches
  the bus handler, and sets neither the source locator nor the latency.
\<close>

theorem first_update_no_configuration_counterexample:
  "update_sync_info example_replies example_info gst_sync_client_init =
     Some (example_client,
           [NetClientClockNew ''127.0.0.1'' 3695, UseClock, ClockSetBus, BusAddWatch,
            EnableSyncMessageEmission, ConnectAsyncDone])"
  by (simp add: update_sync_info_def gst_sync_client_init_def example_defs)

text \<open>
  Claim C8, amended. The first snapshot update stores the snapshot, creates the network
  clock from the snapshot's clock address and port, hands it to the pipeline and attaches
  the bus handler; it issues no other action, so no state command and no configuration.
  The source locator and the latency are set later, by the start/refresh procedure that
  the handler of the clock-statistics message runs once the wait for synchronisation has
  succeeded, and they are set before that procedure's first state command.
\<close>

theorem first_update_defers_configuration:
  assumes n: "info s = None"
    and u: "\<not> synchronised s"
    and w: "wait_for_sync_ret b"
    and s1: "s1 = s\<lparr>info := Some new, clock := Some (clock_address new, clock_port new)\<rparr>"
  shows "update_sync_info a new s =
           Some (s1, [NetClientClockNew (clock_address new) (clock_port new), UseClock,
                      ClockSetBus, BusAddWatch, EnableSyncMessageEmission, ConnectAsyncDone]) \<and>
         (\<exists>s2 st ys. bus_cb b (MsgElement ''gst-netclock-statistics'' (Some True)) s1 =
                     Some (s2, WaitForSync (10 * (1000 * GST_MSECOND)) # SetUri (uri new) #
                               SetLatency (latency new) # SetState st # ys) \<and>
                   synchronised s2)"
  using assms
  by (cases "set_state_paused_ret b")
    (auto simp add: update_sync_info_def bus_cb_def read_synchronised_def sync_wait_def
      update_pipeline_def set_base_time_def Let_def)

theorem first_update_defers_configuration_witness:
  "update_sync_info example_replies example_info gst_sync_client_init =
     Some (example_client,
           [NetClientClockNew ''127.0.0.1'' 3695, UseClock, ClockSetBus, BusAddWatch,
            EnableSyncMessageEmission, ConnectAsyncDone]) \<and>
   bus_cb example_replies (MsgElement ''gst-netclock-statistics'' (Some True)) example_client =
     Some (example_client\<lparr>synchronised := True\<rparr>,
           [WaitForSync (10000 * GST_MSECOND), SetUri ''A'', SetLatency (300 * GST_MSECOND),
            SetState GST_STATE_PAUSED, SetStartTime GST_CLOCK_TIME_NONE,
            SetBaseTime (1000 * GST_MSECOND), SetState GST_STATE_PLAYING])"
proof -
  have n: "info gst_sync_client_init = None" by (simp add: gst_sync_client_init_def)
  have u: "\<not> synchronised gst_sync_client_init" by (simp add: gst_sync_client_init_def)
  have w: "wait_for_sync_ret example_replies" by (simp add: example_replies_def)
  from first_update_defers_configuration
    [OF n u w refl, where new = example_info and a = example_replies]
  show ?thesis
    by (simp add: update_sync_info_def bus_cb_def read_synchronised_def sync_wait_def
      update_pipeline_def set_base_time_def gst_sync_client_init_def example_defs)
qed

section \<open>Clock synchronisation\<close>

text \<open>
  Claim C7. After the first snapshot, as long as every bounded wait for the clock fails,
  any sequence of bus messages is handled to the end with the client still
  unsynchronised and without a paused or playing command; the only state command the
  handler can issue at all is the idle command that answers an end-of-stream message of
  the pipeline itself, which a pipeline that was never started does not send. Without
  such a message no state command is issued.
\<close>

theorem no_state_command_without_sync:
  assumes "\<forall>(a, e) \<in> set evs. \<not> wait_for_sync_ret a \<and> (\<exists>m. e = BusMessage m)"
  shows "\<exists>s xs. run ((a0, SyncInfo i) # evs) gst_sync_client_init = Some (s, xs) \<and>
           \<not> synchronised s \<and>
           (\<forall>st. SetState st \<in> set xs \<longrightarrow>
              st = GST_STATE_NULL \<and> (\<exists>a. (a, BusMessage (MsgEos SrcPipeline)) \<in> set evs)) \<and>
           ((\<forall>a. (a, BusMessage (MsgEos SrcPipeline)) \<notin> set evs) \<longrightarrow>
              (\<forall>st. SetState st \<notin> set xs))"
proof -
  let ?s1 = "gst_sync_client_init\<lparr>info := Some i, clock := Some (clock_address i, clock_port i)\<rparr>"
  let ?xs = "[NetClientClockNew (clock_address i) (clock_port i), UseClock, ClockSetBus,
              BusAddWatch, EnableSyncMessageEmission, ConnectAsyncDone]"
  have d: "dispatch a0 (SyncInfo i) gst_sync_client_init = Some (?s1, ?xs)"
    by (simp add: dispatch_def update_sync_info_def gst_sync_client_init_def)
  have "info ?s1 = Some i" "clock ?s1 = Some (clock_address i, clock_port i)"
    "\<not> synchronised ?s1"
    by (simp_all add: gst_sync_client_init_def)
  from run_unsynchronised [OF assms this]
  obtain s2 zs where r: "run evs ?s1 = Some (s2, zs)" and u2: "\<not> synchronised s2"
    and z: "\<forall>st. SetState st \<in> set zs \<longrightarrow>
              st = GST_STATE_NULL \<and> (\<exists>a. (a, BusMessage (MsgEos SrcPipeline)) \<in> set evs)"
    by blast
  have "run ((a0, SyncInfo i) # evs) gst_sync_client_init = Some (s2, ?xs @ zs)"
    using d r by simp
  moreover have "\<forall>st. SetState st \<in> set (?xs @ zs) \<longrightarrow>
              st = GST_STATE_NULL \<and> (\<exists>a. (a, BusMessage (MsgEos SrcPipeline)) \<in> set evs)"
    using z by auto
  ultimately show ?thesis using u2 by blast
qed

text \<open>
  Three statistics messages after the first snapshot, two of them reporting
  synchronisation with the wait then failing: two waits, two errors, no state command.
\<close>

theorem no_state_command_without_sync_witness:
  "run [(example_replies, SyncInfo example_info),
        (example_replies\<lparr>wait_for_sync_ret := False\<rparr>,
         BusMessage (MsgElement ''gst-netclock-statistics'' (Some True))),
        (example_replies\<lparr>wait_for_sync_ret := False\<rparr>,
         BusMessage (MsgElement ''gst-netclock-statistics'' (Some False))),
        (example_replies\<lparr>wait_for_sync_ret := False\<rparr>,
         BusMessage (MsgElement ''gst-netclock-statistics'' (Some True)))]
       gst_sync_client_init =
     Some (example_client,
           [NetClientClockNew ''127.0.0.1'' 3695, UseClock, ClockSetBus, BusAddWatch,
            EnableSyncMessageEmission, ConnectAsyncDone,
            WaitForSync (10000 * GST_MSECOND), Warning ''Could not synchronise clock'',
            WaitForSync (10000 * GST_MSECOND), Warning ''Could not synchronise clock''])"
  using no_state_command_without_sync
    [of "[(example_replies\<lparr>wait_for_sync_ret := False\<rparr>,
           BusMessage (MsgElement ''gst-netclock-statistics'' (Some True))),
          (example_replies\<lparr>wait_for_sync_ret := False\<rparr>,
           BusMessage (MsgElement ''gst-netclock-statistics'' (Some False))),
          (example_replies\<lparr>wait_for_sync_ret := False\<rparr>,
           BusMessage (MsgElement ''gst-netclock-statistics'' (Some True)))]"
        example_replies example_info]
  by (simp add: dispatch_def update_sync_info_def bus_cb_def read_synchronised_def
      sync_wait_def gst_sync_client_init_def example_defs)

text \<open>
  Claim C6, as stated, fails: the handler of a statistics message that reports
  synchronisation sets the flag, and the wait that follows in the same handler, when it
  fails, sets it back to false (line 213).
\<close>

theorem synchronised_cleared_by_failed_wait_counterexample:
  "synchronised (read_synchronised (Some True) example_client) \<and>
   sync_wait (example_replies\<lparr>wait_for_sync_ret := False\<rparr>)
       (read_synchronised (Some True) example_client) =
     Some (example_client\<lparr>synchronised := False\<rparr>,
           [WaitForSync (10000 * GST_MSECOND), Warning ''Could not synchronise clock''])"
  by (simp add: read_synchronised_def sync_wait_def example_defs)

text \<open>
  Claim C6, amended. The flag starts false. Seen between handler runs it is monotone:
  across every sequence of snapshot updates and bus messages a flag that is true stays
  true. Inside the handler of a statistics message the flag read from the message is
  kept exactly when the bounded wait succeeds, and is cleared when it fails.
\<close>

theorem synchronised_monotone_between_handlers:
  assumes "run evs s = Some (s', xs)"
  shows "\<not> synchronised gst_sync_client_init \<and>
         (synchronised s \<longrightarrow> synchronised s') \<and>
         (\<forall>a t t' ys. sync_wait a t = Some (t', ys) \<longrightarrow>
            synchronised t' = (synchronised t \<and> wait_for_sync_ret a))"
  using run_synchronised [OF assms] sync_wait_synchronised
  by (simp add: gst_sync_client_init_def)

theorem synchronised_monotone_between_handlers_witness:
  "synchronised (example_client\<lparr>synchronised := True\<rparr>) \<and>
   run [(example_replies\<lparr>wait_for_sync_ret := False\<rparr>,
         BusMessage (MsgElement ''gst-netclock-statistics'' (Some False))),
        (example_replies, SyncInfo (example_info\<lparr>paused := True\<rparr>))]
       (example_client\<lparr>synchronised := True\<rparr>) =
     Some (example_client\<lparr>synchronised := True, info := Some (example_info\<lparr>paused := True\<rparr>)\<rparr>,
           [SetState GST_STATE_PAUSED]) \<and>
   synchronised
     (example_client\<lparr>synchronised := True, info := Some (example_info\<lparr>paused := True\<rparr>)\<rparr>)"
proof -
  have r: "run [(example_replies\<lparr>wait_for_sync_ret := False\<rparr>,
         BusMessage (MsgElement ''gst-netclock-statistics'' (Some False))),
        (example_replies, SyncInfo (example_info\<lparr>paused := True\<rparr>))]
       (example_client\<lparr>synchronised := True\<rparr>) =
     Some (example_client\<lparr>synchronised := True, info := Some (example_info\<lparr>paused := True\<rparr>)\<rparr>,
           [SetState GST_STATE_PAUSED])"
    by (simp add: dispatch_def update_sync_info_def bus_cb_def example_defs)
  have s: "synchronised (example_client\<lparr>synchronised := True\<rparr>)" by simp
  from synchronised_monotone_between_handlers [OF r] s r show ?thesis by simp
qed

end
